theory Spec2Isabelle
  imports Main
begin

unbundle bit_operations_syntax

section \<open>The stream transport of remoting/protocol/libjingle_transport_factory.cc\<close>

text \<open>
  The file holds one class, \<open>LibjingleStreamTransport\<close>, and its factory. The class
  drives three collaborators that live outside the file (the port allocator with its
  P2P transport channel, the PseudoTcp adapter, the channel authenticator) and reports
  the outcome through a one-shot callback. The model is a record of the members, one
  HOL function per method, and a log of the calls the transport makes on its
  collaborators. A C++ member \<open>x_\<close> is the field \<open>x_m\<close> (a name cannot end with an
  underscore here); a \<open>scoped_ptr\<close> or a raw pointer is an \<open>option\<close>, \<open>None\<close>
  being NULL; objects of the collaborators are named by numbers.

  A \<open>DCHECK\<close> is taken as checked: where its condition fails the call ends the
  process. \<open>DCHECK(CalledOnValidThread())\<close> always holds in this single-threaded
  model and is left out. The completion callback is taken not to call back into the
  transport while it runs.
\<close>

subsection \<open>Constants declared outside the file\<close>

type_synonym NetworkManager = nat
type_synonym PacketSocketFactory = nat
type_synonym EventHandler = nat
type_synonym ChannelAuthenticator = nat
type_synonym ConnectedCallback = nat
type_synonym StreamSocket = nat
type_synonym Candidate = nat

text \<open>
  The flag bits of \<open>cricket::PortAllocator\<close> and the two \<open>net::Error\<close> codes the file
  compares with are declared in headers that are not part of the excerpt. Every
  function that reads one takes them as the parameter \<open>K\<close>, so each theorem holds for
  whatever values the headers give.
\<close>

record constants =
  PORTALLOCATOR_DISABLE_TCP :: int
  PORTALLOCATOR_DISABLE_STUN :: int
  PORTALLOCATOR_DISABLE_RELAY :: int
  net_OK :: int
  net_ERR_IO_PENDING :: int

text \<open>Lines 22-29: the tuning constants of the PseudoTcp adapter.\<close>

definition kTcpAckDelayMilliseconds :: int where
  "kTcpAckDelayMilliseconds = 10"

definition kTcpReceiveBufferSize :: int where
  "kTcpReceiveBufferSize = 256 * 1024"

definition kTcpSendBufferSize :: int where
  "kTcpSendBufferSize = kTcpReceiveBufferSize + 30 * 1024"

subsection \<open>The collaborators' objects\<close>

record TransportConfig =
  nat_traversal :: bool
  min_port :: int
  max_port :: int

text \<open>The value a default-constructed \<open>config_\<close> member holds before \<open>Initialize\<close>.\<close>

definition default_TransportConfig :: TransportConfig where
  "default_TransportConfig = \<lparr>nat_traversal = False, min_port = 0, max_port = 0\<rparr>"

datatype PortAllocatorClass = HttpPortAllocator | BasicPortAllocator

record PortAllocator =
  allocator_class :: PortAllocatorClass
  allocator_network_manager :: "NetworkManager option"
  allocator_socket_factory :: "PacketSocketFactory option"
  user_agent :: string
  flags :: int
  port_range :: "int \<times> int"

definition new_HttpPortAllocator ::
  "NetworkManager option \<Rightarrow> PacketSocketFactory option \<Rightarrow> string \<Rightarrow> PortAllocator" where
  "new_HttpPortAllocator nm sf agent =
     \<lparr>allocator_class = HttpPortAllocator, allocator_network_manager = nm,
      allocator_socket_factory = sf, user_agent = agent, flags = 0, port_range = (0, 0)\<rparr>"

definition new_BasicPortAllocator ::
  "NetworkManager option \<Rightarrow> PacketSocketFactory option \<Rightarrow> PortAllocator" where
  "new_BasicPortAllocator nm sf =
     \<lparr>allocator_class = BasicPortAllocator, allocator_network_manager = nm,
      allocator_socket_factory = sf, user_agent = [], flags = 0, port_range = (0, 0)\<rparr>"

definition set_flags :: "int \<Rightarrow> PortAllocator \<Rightarrow> PortAllocator" where
  "set_flags f a = a\<lparr>flags := f\<rparr>"

definition SetPortRange :: "int \<Rightarrow> int \<Rightarrow> PortAllocator \<Rightarrow> PortAllocator" where
  "SetPortRange lo hi a = a\<lparr>port_range := (lo, hi)\<rparr>"

text \<open>
  The channel as \<open>Connect\<close> builds it: its constructor arguments and the two signals
  the transport attaches to.
\<close>

record P2PTransportChannel =
  channel_name :: string
  content_type :: string
  channel_allocator :: "PortAllocator option"
  SignalRequestSignaling_connected :: bool
  SignalCandidateReady_connected :: bool

text \<open>
  The PseudoTcp adapter together with the \<open>TransportChannelSocketAdapter\<close> it wraps:
  whether the wrapped adapter carries the destroyed-callback, and the four settings.
\<close>

record PseudoTcpAdapter =
  on_destroyed_callback_set :: bool
  send_buffer_size :: int
  receive_buffer_size :: int
  no_delay :: bool
  ack_delay :: int

definition new_PseudoTcpAdapter :: "bool \<Rightarrow> PseudoTcpAdapter" where
  "new_PseudoTcpAdapter destroyed_cb =
     \<lparr>on_destroyed_callback_set = destroyed_cb, send_buffer_size = 0,
      receive_buffer_size = 0, no_delay = False, ack_delay = 0\<rparr>"

definition SetSendBufferSize :: "int \<Rightarrow> PseudoTcpAdapter \<Rightarrow> PseudoTcpAdapter" where
  "SetSendBufferSize n a = a\<lparr>send_buffer_size := n\<rparr>"

definition SetReceiveBufferSize :: "int \<Rightarrow> PseudoTcpAdapter \<Rightarrow> PseudoTcpAdapter" where
  "SetReceiveBufferSize n a = a\<lparr>receive_buffer_size := n\<rparr>"

definition SetNoDelay :: "bool \<Rightarrow> PseudoTcpAdapter \<Rightarrow> PseudoTcpAdapter" where
  "SetNoDelay b a = a\<lparr>no_delay := b\<rparr>"

definition SetAckDelay :: "int \<Rightarrow> PseudoTcpAdapter \<Rightarrow> PseudoTcpAdapter" where
  "SetAckDelay n a = a\<lparr>ack_delay := n\<rparr>"

subsection \<open>What the transport does to the outside\<close>

text \<open>
  Which of the four owned resources the transport holds at some moment. A callback
  that runs inside the transport can see no more of them than this.
\<close>

record ownership =
  holds_port_allocator :: bool
  holds_channel :: bool
  holds_socket :: bool
  holds_authenticator :: bool

text \<open>
  Every call that leaves the transport is logged in the order it is made.
  \<open>CallbackRun\<close> is \<open>callback_.Run(socket)\<close>: the callback, the socket it receives and
  what the transport still holds while the callback runs.
\<close>

datatype effect =
    ChannelConnect
  | ChannelOnCandidate Candidate
  | ChannelOnSignalingReady
  | SocketConnect PseudoTcpAdapter
  | SecureAndAuthenticate ChannelAuthenticator "PseudoTcpAdapter option"
  | OnTransportCandidate EventHandler Candidate
  | OnTransportDeleted EventHandler
  | CallbackRun ConnectedCallback "StreamSocket option" ownership

text \<open>
  The ways a call can end the process instead of returning: a failed \<open>DCHECK\<close>, a call
  through a NULL pointer or a null callback, and a call on a transport that has
  deleted itself.
\<close>

datatype error = DcheckFailed | NullDereference | UseAfterDelete

subsection \<open>The class\<close>

text \<open>
  Lines 64-78, in declaration order. \<open>http_port_allocator_\<close> is a raw pointer to the
  object \<open>port_allocator_\<close> owns, so only whether it is set is kept. The last two
  fields are not members: \<open>trace\<close> is the log of effects and \<open>deleted\<close> says that
  \<open>delete this\<close> has run.
\<close>

record LibjingleStreamTransport =
  network_manager_m :: "NetworkManager option"
  socket_factory_m :: "PacketSocketFactory option"
  name_m :: string
  config_m :: TransportConfig
  event_handler_m :: "EventHandler option"
  callback_m :: "ConnectedCallback option"
  authenticator_m :: "ChannelAuthenticator option"
  port_allocator_m :: "PortAllocator option"
  http_port_allocator_m :: bool
  channel_m :: "P2PTransportChannel option"
  socket_m :: "PseudoTcpAdapter option"
  trace :: "effect list"
  deleted :: bool

type_synonym outcome = "error + LibjingleStreamTransport"

text \<open>Lines 83-90: the constructor.\<close>

definition new_LibjingleStreamTransport ::
  "NetworkManager option \<Rightarrow> PacketSocketFactory option \<Rightarrow> LibjingleStreamTransport" where
  "new_LibjingleStreamTransport network_manager socket_factory =
     \<lparr>network_manager_m = network_manager,
      socket_factory_m = socket_factory,
      name_m = [],
      config_m = default_TransportConfig,
      event_handler_m = None,
      callback_m = None,
      authenticator_m = None,
      port_allocator_m = None,
      http_port_allocator_m = False,
      channel_m = None,
      socket_m = None,
      trace = [],
      deleted = False\<rparr>"

text \<open>Lines 187-190.\<close>

definition is_connected :: "LibjingleStreamTransport \<Rightarrow> bool" where
  "is_connected s = (callback_m s = None)"

text \<open>Lines 182-185.\<close>

definition name :: "LibjingleStreamTransport \<Rightarrow> string" where
  "name s = name_m s"

text \<open>Which owned members are set: what a callback that runs now would find.\<close>

definition held :: "LibjingleStreamTransport \<Rightarrow> ownership" where
  "held s =
     \<lparr>holds_port_allocator = (port_allocator_m s \<noteq> None),
      holds_channel = (channel_m s \<noteq> None),
      holds_socket = (socket_m s \<noteq> None),
      holds_authenticator = (authenticator_m s \<noteq> None)\<rparr>"

text \<open>
  Lines 92-97: the destructor, which \<open>delete this\<close> runs. The handler is told first;
  the members are destroyed after the body.
\<close>

definition delete_this :: "LibjingleStreamTransport \<Rightarrow> outcome" where
  "delete_this s =
     (case event_handler_m s of
        None \<Rightarrow> Inl DcheckFailed
      | Some h \<Rightarrow>
          if is_connected s \<and> socket_m s \<noteq> None then Inl DcheckFailed
          else Inr (s\<lparr>trace := trace s @ [OnTransportDeleted h],
                      authenticator_m := None,
                      port_allocator_m := None,
                      http_port_allocator_m := False,
                      channel_m := None,
                      socket_m := None,
                      deleted := True\<rparr>))"

text \<open>Lines 99-116. The three \<open>DCHECK\<close>s come in the source's order.\<close>

definition Initialize ::
  "string \<Rightarrow> TransportConfig \<Rightarrow> EventHandler option \<Rightarrow> ChannelAuthenticator option \<Rightarrow>
   LibjingleStreamTransport \<Rightarrow> outcome" where
  "Initialize nm config event_handler authenticator s =
     (if nm = [] then Inl DcheckFailed
      else if event_handler = None then Inl DcheckFailed
      else if name_m s \<noteq> [] then Inl DcheckFailed
      else Inr (s\<lparr>name_m := nm,
                  config_m := config,
                  event_handler_m := event_handler,
                  authenticator_m := authenticator\<rparr>))"

text \<open>
  Lines 236-241. The \<open>DCHECK\<close> refuses a null \<open>callback_\<close>, which \<open>Run\<close> could not
  call either. The callback runs before \<open>Reset\<close>, on the members as they are then.
\<close>

definition NotifyConnected :: "StreamSocket option \<Rightarrow> LibjingleStreamTransport \<Rightarrow> outcome" where
  "NotifyConnected socket s =
     (case callback_m s of
        None \<Rightarrow> Inl DcheckFailed
      | Some cb \<Rightarrow>
          Inr (s\<lparr>trace := trace s @ [CallbackRun cb socket (held s)],
                 callback_m := None\<rparr>))"

text \<open>
  Lines 243-249. Destroying the adapter in the first line raises the destroyed event
  while \<open>callback_\<close> is still set, where \<open>OnChannelDestroyed\<close> does nothing.
\<close>

definition NotifyConnectFailed :: "LibjingleStreamTransport \<Rightarrow> outcome" where
  "NotifyConnectFailed s =
     NotifyConnected None (s\<lparr>socket_m := None, channel_m := None, authenticator_m := None\<rparr>)"

text \<open>
  Lines 204-216. On success the adapter leaves \<open>socket_\<close> (\<open>PassAs\<close>) and goes to the
  authenticator, which answers later through \<open>OnAuthenticationDone\<close>.
\<close>

definition OnTcpConnected :: "constants \<Rightarrow> int \<Rightarrow> LibjingleStreamTransport \<Rightarrow> outcome" where
  "OnTcpConnected K result s =
     (if result \<noteq> net_OK K then NotifyConnectFailed s
      else case authenticator_m s of
             None \<Rightarrow> Inl NullDereference
           | Some a \<Rightarrow>
               Inr (s\<lparr>trace := trace s @ [SecureAndAuthenticate a (socket_m s)],
                      socket_m := None\<rparr>))"

text \<open>Lines 218-227.\<close>

definition OnAuthenticationDone ::
  "constants \<Rightarrow> int \<Rightarrow> StreamSocket option \<Rightarrow> LibjingleStreamTransport \<Rightarrow> outcome" where
  "OnAuthenticationDone K err socket s =
     (if err \<noteq> net_OK K then NotifyConnectFailed s else NotifyConnected socket s)"

text \<open>Lines 229-234.\<close>

definition OnChannelDestroyed :: "LibjingleStreamTransport \<Rightarrow> outcome" where
  "OnChannelDestroyed s = (if is_connected s then delete_this s else Inr s)"

text \<open>Lines 176-180.\<close>

definition AddRemoteCandidate :: "Candidate \<Rightarrow> LibjingleStreamTransport \<Rightarrow> outcome" where
  "AddRemoteCandidate candidate s =
     (case channel_m s of
        None \<Rightarrow> Inl NullDereference
      | Some c \<Rightarrow> Inr (s\<lparr>trace := trace s @ [ChannelOnCandidate candidate]\<rparr>))"

text \<open>Lines 192-195.\<close>

definition OnRequestSignaling :: "LibjingleStreamTransport \<Rightarrow> outcome" where
  "OnRequestSignaling s =
     (case channel_m s of
        None \<Rightarrow> Inl NullDereference
      | Some c \<Rightarrow> Inr (s\<lparr>trace := trace s @ [ChannelOnSignalingReady]\<rparr>))"

text \<open>Lines 197-202.\<close>

definition OnCandidateReady :: "Candidate \<Rightarrow> LibjingleStreamTransport \<Rightarrow> outcome" where
  "OnCandidateReady candidate s =
     (case event_handler_m s of
        None \<Rightarrow> Inl NullDereference
      | Some h \<Rightarrow> Inr (s\<lparr>trace := trace s @ [OnTransportCandidate h candidate]\<rparr>))"

text \<open>
  \<open>Connect\<close>, lines 118-174, in three blocks. Lines 129-142 choose, create and
  configure the port allocator.
\<close>

definition create_port_allocator ::
  "constants \<Rightarrow> LibjingleStreamTransport \<Rightarrow> LibjingleStreamTransport" where
  "create_port_allocator K s =
     (let port_allocator_flags = PORTALLOCATOR_DISABLE_TCP K;
          (port_allocator_flags, s1) =
            (if nat_traversal (config_m s)
             then (port_allocator_flags,
                   s\<lparr>http_port_allocator_m := True,
                     port_allocator_m :=
                       Some (new_HttpPortAllocator (network_manager_m s) (socket_factory_m s) [])\<rparr>)
             else (port_allocator_flags OR
                     (PORTALLOCATOR_DISABLE_STUN K OR PORTALLOCATOR_DISABLE_RELAY K),
                   s\<lparr>port_allocator_m :=
                       Some (new_BasicPortAllocator (network_manager_m s) (socket_factory_m s))\<rparr>))
      in s1\<lparr>port_allocator_m :=
              map_option
                (SetPortRange (min_port (config_m s1)) (max_port (config_m s1)) \<circ>
                 set_flags port_allocator_flags)
                (port_allocator_m s1)\<rparr>)"

text \<open>
  Lines 146-153 create the channel on that allocator (the channel keeps the pointer),
  attach the two signals and start it.
\<close>

definition create_channel :: "LibjingleStreamTransport \<Rightarrow> LibjingleStreamTransport" where
  "create_channel s =
     s\<lparr>channel_m :=
         Some \<lparr>channel_name = name_m s, content_type = [],
               channel_allocator = port_allocator_m s,
               SignalRequestSignaling_connected = True,
               SignalCandidateReady_connected = True\<rparr>,
       trace := trace s @ [ChannelConnect]\<rparr>"

text \<open>
  Lines 156-171 wrap the channel, register \<open>OnChannelDestroyed\<close> on the wrapper,
  configure the PseudoTcp adapter in the order of the four calls and ask it to
  connect.
\<close>

definition create_socket :: "LibjingleStreamTransport \<Rightarrow> LibjingleStreamTransport" where
  "create_socket s =
     (let a = SetAckDelay kTcpAckDelayMilliseconds
                (SetNoDelay True
                  (SetReceiveBufferSize kTcpReceiveBufferSize
                    (SetSendBufferSize kTcpSendBufferSize
                      (new_PseudoTcpAdapter True))))
      in s\<lparr>socket_m := Some a, trace := trace s @ [SocketConnect a]\<rparr>)"

text \<open>
  What \<open>socket_->Connect\<close> returns is the adapter's business, so the value comes in
  as \<open>result\<close>; lines 172-173 act on it.
\<close>

definition Connect ::
  "constants \<Rightarrow> ConnectedCallback option \<Rightarrow> int \<Rightarrow> LibjingleStreamTransport \<Rightarrow> outcome" where
  "Connect K callback result s =
     (let s1 = create_port_allocator K (s\<lparr>callback_m := callback\<rparr>)
      in if channel_m s1 \<noteq> None then Inl DcheckFailed
         else let s2 = create_socket (create_channel s1)
              in if result \<noteq> net_ERR_IO_PENDING K then OnTcpConnected K result s2
                 else Inr s2)"

subsection \<open>Runs of a transport\<close>

text \<open>
  What can happen to a transport: its owner calls a public method, the channel raises
  one of the two signals, the PseudoTcp adapter or the authenticator completes, or
  the wrapped channel adapter is destroyed. \<open>EvConnect\<close> carries what
  \<open>socket_->Connect\<close> returns during that call. The events come one after the
  other and in any order. \<open>SecureAndAuthenticate\<close>, through which the authenticator
  could answer at once, is the last thing \<open>OnTcpConnected\<close> and \<open>Connect\<close> do, so
  an answer given at once is the same event given next.
\<close>

datatype event =
    EvInitialize string TransportConfig "EventHandler option" "ChannelAuthenticator option"
  | EvConnect "ConnectedCallback option" int
  | EvAddRemoteCandidate Candidate
  | EvRequestSignaling
  | EvCandidateReady Candidate
  | EvTcpConnected int
  | EvAuthenticationDone int "StreamSocket option"
  | EvChannelDestroyed

fun dispatch :: "constants \<Rightarrow> event \<Rightarrow> LibjingleStreamTransport \<Rightarrow> outcome" where
  "dispatch K (EvInitialize nm config h a) s = Initialize nm config h a s"
| "dispatch K (EvConnect callback result) s = Connect K callback result s"
| "dispatch K (EvAddRemoteCandidate c) s = AddRemoteCandidate c s"
| "dispatch K EvRequestSignaling s = OnRequestSignaling s"
| "dispatch K (EvCandidateReady c) s = OnCandidateReady c s"
| "dispatch K (EvTcpConnected result) s = OnTcpConnected K result s"
| "dispatch K (EvAuthenticationDone err socket) s = OnAuthenticationDone K err socket s"
| "dispatch K EvChannelDestroyed s = OnChannelDestroyed s"

text \<open>A call on a transport that has deleted itself is a use after free.\<close>

definition step :: "constants \<Rightarrow> event \<Rightarrow> LibjingleStreamTransport \<Rightarrow> outcome" where
  "step K e s = (if deleted s then Inl UseAfterDelete else dispatch K e s)"

fun run :: "constants \<Rightarrow> event list \<Rightarrow> LibjingleStreamTransport \<Rightarrow> outcome" where
  "run K [] s = Inr s"
| "run K (e # es) s = (case step K e s of Inl err \<Rightarrow> Inl err | Inr s' \<Rightarrow> run K es s')"

text \<open>The deliveries of the completion callback in a log, oldest first.\<close>

fun deliveries :: "effect list \<Rightarrow> (ConnectedCallback \<times> StreamSocket option) list" where
  "deliveries [] = []"
| "deliveries (CallbackRun cb socket h # xs) = (cb, socket) # deliveries xs"
| "deliveries (x # xs) = deliveries xs"

text \<open>The candidates a log hands to the channel, oldest first.\<close>

fun forwarded :: "effect list \<Rightarrow> Candidate list" where
  "forwarded [] = []"
| "forwarded (ChannelOnCandidate c # xs) = c # forwarded xs"
| "forwarded (x # xs) = forwarded xs"

fun is_connect :: "event \<Rightarrow> bool" where
  "is_connect (EvConnect callback result) = True"
| "is_connect e = False"


text \<open>The candidates the owner adds in a list of events, oldest first.\<close>

fun added :: "event list \<Rightarrow> Candidate list" where
  "added [] = []"
| "added (EvAddRemoteCandidate c # es) = c # added es"
| "added (e # es) = added es"

subsection \<open>The outcome section 4.3 of the specification promises\<close>

text \<open>
  These three definitions follow the specification's words, not the code; the code
  is compared with them in claim C1. A connect attempt ends when the
  reliability handshake fails (a null result), when authentication fails (a null
  result) or when authentication succeeds (the authenticator's socket).
  \<open>spec_completes\<close> says whether one event ends the attempt and with what result;
  \<open>spec_connect_outcome\<close> is the result of the first event that does, the value
  \<open>socket_->Connect\<close> returned inside \<open>Connect\<close> included.
\<close>

fun spec_completes :: "constants \<Rightarrow> event \<Rightarrow> StreamSocket option option" where
  "spec_completes K (EvTcpConnected result) = (if result \<noteq> net_OK K then Some None else None)"
| "spec_completes K (EvAuthenticationDone err socket) =
     (if err \<noteq> net_OK K then Some None else Some socket)"
| "spec_completes K e = None"

fun spec_completion :: "constants \<Rightarrow> event list \<Rightarrow> StreamSocket option option" where
  "spec_completion K [] = None"
| "spec_completion K (e # es) =
     (case spec_completes K e of Some out \<Rightarrow> Some out | None \<Rightarrow> spec_completion K es)"

definition spec_connect_outcome :: "constants \<Rightarrow> int \<Rightarrow> event list \<Rightarrow> StreamSocket option option" where
  "spec_connect_outcome K result es =
     (if result \<noteq> net_ERR_IO_PENDING K \<and> result \<noteq> net_OK K then Some None
      else spec_completion K es)"

text \<open>
  The events that report a failed stage: the handshake failing inside \<open>Connect\<close>,
  the handshake failing later, authentication failing.
\<close>

fun failure_event :: "constants \<Rightarrow> event \<Rightarrow> bool" where
  "failure_event K (EvConnect callback result) =
     (result \<noteq> net_ERR_IO_PENDING K \<and> result \<noteq> net_OK K)"
| "failure_event K (EvTcpConnected result) = (result \<noteq> net_OK K)"
| "failure_event K (EvAuthenticationDone err socket) = (err \<noteq> net_OK K)"
| "failure_event K e = False"

subsection \<open>The factory\<close>

text \<open>
  Lines 253-272. The factory owns a network manager and a packet socket factory and
  hands their addresses to every transport it creates. A call returns the factory
  as it leaves it, what it reported to the log, and the object.
\<close>

record LibjingleTransportFactory =
  factory_network_manager_m :: "NetworkManager option"
  factory_socket_factory_m :: "PacketSocketFactory option"

datatype report = NOTIMPLEMENTED

type_synonym DatagramTransport = nat

definition new_LibjingleTransportFactory ::
  "NetworkManager \<Rightarrow> PacketSocketFactory \<Rightarrow> LibjingleTransportFactory" where
  "new_LibjingleTransportFactory basic_network_manager basic_packet_socket_factory =
     \<lparr>factory_network_manager_m = Some basic_network_manager,
      factory_socket_factory_m = Some basic_packet_socket_factory\<rparr>"

definition CreateStreamTransport ::
  "LibjingleTransportFactory \<Rightarrow>
   LibjingleTransportFactory \<times> report list \<times> LibjingleStreamTransport option" where
  "CreateStreamTransport f =
     (f, [],
      Some (new_LibjingleStreamTransport (factory_network_manager_m f)
              (factory_socket_factory_m f)))"

definition CreateDatagramTransport ::
  "LibjingleTransportFactory \<Rightarrow>
   LibjingleTransportFactory \<times> report list \<times> DatagramTransport option" where
  "CreateDatagramTransport f = (f, [NOTIMPLEMENTED], None)"

subsection \<open>Inputs for running the model\<close>

text \<open>
  Values to run the model on: the constants as the headers of that revision give them
  (\<open>net::OK\<close> is 0, \<open>net::ERR_IO_PENDING\<close> is -1, the allocator flags are single bits),
  a configuration without NAT traversal, and a transport as the factory creates it. No
  general theorem depends on them.
\<close>

definition example_constants :: constants where
  "example_constants =
     \<lparr>PORTALLOCATOR_DISABLE_TCP = 8, PORTALLOCATOR_DISABLE_STUN = 2,
      PORTALLOCATOR_DISABLE_RELAY = 4, net_OK = 0, net_ERR_IO_PENDING = - 1\<rparr>"

definition example_config :: TransportConfig where
  "example_config = \<lparr>nat_traversal = False, min_port = 12400, max_port = 12409\<rparr>"

definition example_transport :: LibjingleStreamTransport where
  "example_transport = new_LibjingleStreamTransport (Some 10) (Some 11)"

section \<open>Facts about logs and runs\<close>

lemmas handler_defs =
  Initialize_def NotifyConnected_def NotifyConnectFailed_def OnTcpConnected_def
  OnAuthenticationDone_def OnChannelDestroyed_def AddRemoteCandidate_def
  OnRequestSignaling_def OnCandidateReady_def delete_this_def is_connected_def

lemmas connect_defs =
  Connect_def create_port_allocator_def create_channel_def create_socket_def Let_def

lemmas example_defs = example_constants_def example_config_def example_transport_def
  new_LibjingleStreamTransport_def default_TransportConfig_def

lemmas adapter_defs = new_PseudoTcpAdapter_def SetSendBufferSize_def SetReceiveBufferSize_def
  SetNoDelay_def SetAckDelay_def kTcpAckDelayMilliseconds_def kTcpReceiveBufferSize_def
  kTcpSendBufferSize_def

lemmas allocator_defs = new_HttpPortAllocator_def new_BasicPortAllocator_def set_flags_def
  SetPortRange_def

subsection \<open>Logs\<close>

lemma deliveries_append: "deliveries (xs @ ys) = deliveries xs @ deliveries ys"
  by (induction xs rule: deliveries.induct) simp_all

lemma forwarded_append: "forwarded (xs @ ys) = forwarded xs @ forwarded ys"
  by (induction xs rule: forwarded.induct) simp_all


lemma added_append: "added (xs @ ys) = added xs @ added ys"
  by (induction xs rule: added.induct) simp_all

lemma run_append:
  "run K (xs @ ys) s = (case run K xs s of Inl err \<Rightarrow> Inl err | Inr s' \<Rightarrow> run K ys s')"
  by (induction xs arbitrary: s) (simp_all split: sum.splits)

subsection \<open>The stored callback along a run\<close>

text \<open>
  While no callback is stored, no event other than \<open>Connect\<close> delivers anything or
  stores one. While a callback is stored, the channel is there and the transport is
  alive, and the first event that completes the attempt runs the callback once.
\<close>

lemma idle_step:
  assumes "callback_m s = None" "\<not> is_connect e" "step K e s = Inr s'"
  shows "callback_m s' = None \<and> deliveries (trace s') = deliveries (trace s)"
  using assms
  by (cases e) (auto simp: step_def handler_defs deliveries_append
      split: if_splits option.splits)

lemma pending_step:
  assumes "callback_m s = Some cb" "deliveries (trace s) = []" "channel_m s \<noteq> None"
    "\<not> is_connect e" "step K e s = Inr s'"
  shows "(case spec_completes K e of
            None \<Rightarrow> callback_m s' = Some cb \<and> deliveries (trace s') = [] \<and>
                    channel_m s' \<noteq> None \<and> \<not> deleted s'
          | Some out \<Rightarrow> callback_m s' = None \<and> deliveries (trace s') = [(cb, out)])"
  using assms
  by (cases e) (auto simp: step_def handler_defs deliveries_append
      split: if_splits option.splits)

lemma idle_run:
  assumes "callback_m s = None" "\<forall>e \<in> set es. \<not> is_connect e" "run K es s = Inr s'"
  shows "callback_m s' = None \<and> deliveries (trace s') = deliveries (trace s)"
  using assms
proof (induction es arbitrary: s)
  case Nil
  then show ?case by simp
next
  case (Cons e es)
  from Cons.prems(3) obtain s1 where st: "step K e s = Inr s1" and rest: "run K es s1 = Inr s'"
    by (auto split: sum.splits)
  from Cons.prems(1,2) st
  have "callback_m s1 = None \<and> deliveries (trace s1) = deliveries (trace s)"
    using idle_step [of s e K s1] by simp
  with Cons.IH [of s1] Cons.prems(2) rest show ?case by simp
qed

lemma pending_run:
  assumes "callback_m s = Some cb" "deliveries (trace s) = []" "channel_m s \<noteq> None"
    "\<forall>e \<in> set es. \<not> is_connect e" "run K es s = Inr s'" "\<not> deleted s"
  shows "(case spec_completion K es of
            None \<Rightarrow> callback_m s' = Some cb \<and> deliveries (trace s') = [] \<and>
                    channel_m s' \<noteq> None \<and> \<not> deleted s'
          | Some out \<Rightarrow> callback_m s' = None \<and> deliveries (trace s') = [(cb, out)])"
  using assms
proof (induction es arbitrary: s)
  case Nil
  then show ?case by simp
next
  case (Cons e es)
  from Cons.prems(5) obtain s1 where st: "step K e s = Inr s1" and rest: "run K es s1 = Inr s'"
    by (auto split: sum.splits)
  have ne: "\<not> is_connect e" and nes: "\<forall>e \<in> set es. \<not> is_connect e"
    using Cons.prems(4) by simp_all
  note ps = pending_step [OF Cons.prems(1,2,3) ne st]
  show ?case
  proof (cases "spec_completes K e")
    case None
    with ps have "callback_m s1 = Some cb" "deliveries (trace s1) = []" "channel_m s1 \<noteq> None"
      and nd: "\<not> deleted s1"
      by simp_all
    from Cons.IH [OF this(1,2,3) nes rest nd] None show ?thesis by simp
  next
    case (Some out)
    with ps have c: "callback_m s1 = None" and d: "deliveries (trace s1) = [(cb, out)]"
      by simp_all
    from idle_run [OF c nes rest] d Some show ?thesis by simp
  qed
qed

lemma connect_step:
  assumes "step K (EvConnect (Some cb) r) s = Inr s1" "deliveries (trace s) = []"
  shows "if r \<noteq> net_ERR_IO_PENDING K \<and> r \<noteq> net_OK K
         then callback_m s1 = None \<and> deliveries (trace s1) = [(cb, None)]
         else callback_m s1 = Some cb \<and> deliveries (trace s1) = [] \<and>
              channel_m s1 \<noteq> None \<and> \<not> deleted s1"
  using assms
  by (auto simp: step_def connect_defs handler_defs deliveries_append
      split: if_splits option.splits)

lemma after_connect:
  assumes r: "run K (pre @ EvConnect (Some cb) r # es) (new_LibjingleStreamTransport nm sf) = Inr s"
    and pre: "\<forall>e \<in> set pre. \<not> is_connect e"
    and es: "\<forall>e \<in> set es. \<not> is_connect e"
  shows "(case spec_connect_outcome K r es of
            None \<Rightarrow> callback_m s = Some cb \<and> deliveries (trace s) = [] \<and>
                    channel_m s \<noteq> None \<and> \<not> deleted s
          | Some out \<Rightarrow> callback_m s = None \<and> deliveries (trace s) = [(cb, out)])"
proof -
  let ?s0 = "new_LibjingleStreamTransport nm sf"
  from r obtain s1 s2 where a: "run K pre ?s0 = Inr s1"
    and b: "step K (EvConnect (Some cb) r) s1 = Inr s2" and c: "run K es s2 = Inr s"
    by (auto simp: run_append split: sum.splits)
  have "callback_m ?s0 = None" "deliveries (trace ?s0) = []"
    by (simp_all add: new_LibjingleStreamTransport_def)
  with idle_run [OF _ pre a] have d1: "deliveries (trace s1) = []" by simp
  note cs = connect_step [OF b d1]
  show ?thesis
  proof (cases "r \<noteq> net_ERR_IO_PENDING K \<and> r \<noteq> net_OK K")
    case True
    with cs have "callback_m s2 = None" "deliveries (trace s2) = [(cb, None)]" by simp_all
    with idle_run [OF _ es c] True show ?thesis by (simp add: spec_connect_outcome_def)
  next
    case False
    with cs have "callback_m s2 = Some cb" "deliveries (trace s2) = []" "channel_m s2 \<noteq> None"
      "\<not> deleted s2" by auto
    from pending_run [OF this(1,2,3) es c this(4)] False show ?thesis
      by (auto simp add: spec_connect_outcome_def)
  qed
qed

text \<open>
  The calls return where the contract is kept: a completing event on a transport that
  holds a callback, and \<open>Connect\<close> on a transport without a channel that has its
  authenticator when the handshake succeeds at once and a callback when it fails at
  once.
\<close>

lemma completion_step_returns:
  assumes "callback_m s = Some cb" "\<not> deleted s" "spec_completes K e = Some out"
  shows "\<exists>s'. step K e s = Inr s' \<and>
              deliveries (trace s') = deliveries (trace s) @ [(cb, out)] \<and>
              callback_m s' = None"
  using assms
  by (cases e) (auto simp: step_def handler_defs deliveries_append split: if_splits)

lemma Connect_returns:
  assumes "channel_m s = None"
    and "result = net_OK K \<Longrightarrow> authenticator_m s \<noteq> None"
    and "result \<noteq> net_OK K \<Longrightarrow> callback \<noteq> None"
  shows "\<exists>s'. Connect K callback result s = Inr s'"
  using assms
  by (auto simp: connect_defs handler_defs split: if_splits option.splits)

subsection \<open>The allocator under a stored callback\<close>

text \<open>
  Only \<open>Connect\<close> stores a callback, and it creates the allocator first; only the
  destructor gives the allocator up, and it runs when no callback is stored. So a
  transport that holds a callback holds an allocator, and a failure reported by the
  adapter or the authenticator finds both.
\<close>

lemma callback_needs_allocator_step:
  assumes "callback_m s \<noteq> None \<longrightarrow> port_allocator_m s \<noteq> None" "step K e s = Inr s'"
  shows "callback_m s' \<noteq> None \<longrightarrow> port_allocator_m s' \<noteq> None"
  using assms
  by (cases e)
     (auto simp: step_def connect_defs handler_defs split: if_splits option.splits)

lemma callback_needs_allocator_run:
  assumes "callback_m s \<noteq> None \<longrightarrow> port_allocator_m s \<noteq> None" "run K es s = Inr s'"
  shows "callback_m s' \<noteq> None \<longrightarrow> port_allocator_m s' \<noteq> None"
  using assms
proof (induction es arbitrary: s)
  case Nil
  then show ?case by simp
next
  case (Cons e es)
  from Cons.prems(2) obtain s1 where st: "step K e s = Inr s1" and rest: "run K es s1 = Inr s'"
    by (auto split: sum.splits)
  from callback_needs_allocator_step [OF Cons.prems(1) st] Cons.IH [OF _ rest]
  show ?case by blast
qed

lemma failure_event_needs_callback:
  assumes "failure_event K e" "\<not> is_connect e" "dispatch K e s = Inr s'"
  shows "callback_m s \<noteq> None \<and> port_allocator_m s' = port_allocator_m s"
  using assms
  by (cases e) (auto simp: handler_defs split: if_splits option.splits)

subsection \<open>The destructor and the candidates\<close>

lemma delete_this_succeeds:
  assumes "event_handler_m s = Some h" "socket_m s = None"
  shows "\<exists>s'. delete_this s = Inr s' \<and> deleted s' \<and> trace s' = trace s @ [OnTransportDeleted h]"
  using assms by (simp add: delete_this_def)

lemma forwarded_step:
  assumes "step K e s = Inr s'"
  shows "forwarded (trace s') = forwarded (trace s) @ added [e]"
  using assms
  by (cases e)
     (auto simp: step_def connect_defs handler_defs forwarded_append
       split: if_splits option.splits)

lemma forwarded_run:
  assumes "run K es s = Inr s'"
  shows "forwarded (trace s') = forwarded (trace s) @ added es"
  using assms
proof (induction es arbitrary: s)
  case Nil
  then show ?case by simp
next
  case (Cons e es)
  from Cons.prems obtain s1 where st: "step K e s = Inr s1" and rest: "run K es s1 = Inr s'"
    by (auto split: sum.splits)
  have "added (e # es) = added [e] @ added es"
    using added_append [of "[e]" es] by simp
  with Cons.IH [OF rest] forwarded_step [OF st] show ?case by simp
qed

lemma add_candidates_run:
  assumes "channel_m s \<noteq> None" "\<not> deleted s"
  shows "run K (map EvAddRemoteCandidate cs) s =
         Inr (s\<lparr>trace := trace s @ map ChannelOnCandidate cs\<rparr>)"
  using assms
proof (induction cs arbitrary: s)
  case Nil
  then show ?case by simp
next
  case (Cons c cs)
  let ?s1 = "s\<lparr>trace := trace s @ [ChannelOnCandidate c]\<rparr>"
  from Cons.prems have st: "step K (EvAddRemoteCandidate c) s = Inr ?s1"
    by (auto simp: step_def AddRemoteCandidate_def)
  from Cons.prems have "channel_m ?s1 \<noteq> None" "\<not> deleted ?s1" by simp_all
  from Cons.IH [OF this] st show ?case by simp
qed

section \<open>The claims\<close>

text \<open>
  Claim C1. A transport on which \<open>Connect\<close> is called once, with a callback,
  delivers exactly what section 4.3 promises, whatever else happens to it and in
  whatever order, as long as no call ends the process: nothing while no stage has
  completed, and from the first completion on exactly one run of that callback, with
  a null socket when the reliability handshake or authentication failed and with
  the authenticator's socket when authentication succeeded. \<open>is_connected\<close> turns
  true with that delivery, the stored callback being null from then on, so the log
  never holds a second run. While the attempt is open, every event that completes it
  returns and delivers.
\<close>

theorem connect_outcome_delivered_once:
  assumes "run K (pre @ EvConnect (Some cb) r # es) (new_LibjingleStreamTransport nm sf) = Inr s"
    and "\<forall>e \<in> set pre. \<not> is_connect e"
    and "\<forall>e \<in> set es. \<not> is_connect e"
  shows "deliveries (trace s) =
           (case spec_connect_outcome K r es of None \<Rightarrow> [] | Some out \<Rightarrow> [(cb, out)]) \<and>
         (is_connected s \<longleftrightarrow> spec_connect_outcome K r es \<noteq> None) \<and>
         length (deliveries (trace s)) \<le> 1 \<and>
         (spec_connect_outcome K r es = None \<longrightarrow>
            (\<forall>e out. spec_completes K e = Some out \<longrightarrow>
               (\<exists>s'. step K e s = Inr s' \<and> deliveries (trace s') = [(cb, out)] \<and>
                     is_connected s')))"
proof -
  note ac = after_connect [OF assms]
  have a: "deliveries (trace s) =
           (case spec_connect_outcome K r es of None \<Rightarrow> [] | Some out \<Rightarrow> [(cb, out)])"
    using ac by (cases "spec_connect_outcome K r es") simp_all
  have b: "is_connected s \<longleftrightarrow> spec_connect_outcome K r es \<noteq> None"
    using ac by (cases "spec_connect_outcome K r es") (simp_all add: is_connected_def)
  have c: "length (deliveries (trace s)) \<le> 1"
    using a by (cases "spec_connect_outcome K r es") simp_all
  have d: "\<exists>s'. step K e s = Inr s' \<and> deliveries (trace s') = [(cb, out)] \<and> is_connected s'"
    if "spec_connect_outcome K r es = None" "spec_completes K e = Some out" for e out
  proof -
    from ac that(1) have "callback_m s = Some cb" "\<not> deleted s" "deliveries (trace s) = []"
      by simp_all
    with completion_step_returns [OF this(1,2) that(2)] show ?thesis
      by (auto simp: is_connected_def)
  qed
  from a b c d show ?thesis by blast
qed

text \<open>A full connection: handshake, authentication, one delivery of socket 9.\<close>

theorem connect_outcome_delivered_once_witness:
  "\<exists>s. run example_constants
          [EvInitialize ''video'' example_config (Some 1) (Some 2),
           EvConnect (Some 3) (- 1),
           EvAddRemoteCandidate 7,
           EvTcpConnected 0,
           EvAuthenticationDone 0 (Some 9),
           EvCandidateReady 5] example_transport = Inr s \<and>
       deliveries (trace s) = [(3, Some 9)] \<and> is_connected s"
proof -
  let ?pre = "[EvInitialize ''video'' example_config (Some 1) (Some 2)]"
  let ?es = "[EvAddRemoteCandidate 7, EvTcpConnected 0, EvAuthenticationDone 0 (Some 9),
              EvCandidateReady 5]"
  have "\<exists>s. run example_constants (?pre @ EvConnect (Some 3) (- 1) # ?es) example_transport = Inr s"
    by (simp add: step_def example_defs connect_defs handler_defs allocator_defs adapter_defs)
  then obtain s where r: "run example_constants (?pre @ EvConnect (Some 3) (- 1) # ?es)
      (new_LibjingleStreamTransport (Some 10) (Some 11)) = Inr s"
    by (auto simp: example_transport_def)
  have o: "spec_connect_outcome example_constants (- 1) ?es = Some (Some 9)"
    by (simp add: spec_connect_outcome_def example_constants_def)
  from connect_outcome_delivered_once [OF r] o r show ?thesis
    by (auto simp: example_transport_def)
qed

text \<open>
  Claim C2, as the code has it. Whenever an event reports a failed stage and the call
  returns, the last thing the transport did was to run the stored callback with a
  null socket, and at that moment it held neither channel nor adapter nor
  authenticator. The port allocator is not part of the release: the failing call
  leaves it as it found it (inside \<open>Connect\<close> it is the allocator just created), and
  on a transport reached from its construction that is an allocator, so the failure
  callback runs, and the failing call returns, with the allocator held.
\<close>

theorem failure_releases_before_callback:
  assumes "failure_event K e" and "dispatch K e s = Inr s'"
  shows "\<exists>cb log.
           trace s' = log @
             [CallbackRun cb None
                \<lparr>holds_port_allocator = (port_allocator_m s' \<noteq> None), holds_channel = False,
                 holds_socket = False, holds_authenticator = False\<rparr>] \<and>
           (case e of EvConnect callback result \<Rightarrow> callback | _ \<Rightarrow> callback_m s) = Some cb \<and>
           channel_m s' = None \<and> socket_m s' = None \<and> authenticator_m s' = None \<and>
           callback_m s' = None \<and>
           (if is_connect e then port_allocator_m s' \<noteq> None
            else port_allocator_m s' = port_allocator_m s) \<and>
           ((\<exists>es nm sf. run K es (new_LibjingleStreamTransport nm sf) = Inr s) \<longrightarrow>
              port_allocator_m s' \<noteq> None)"
proof -
  have core: "\<exists>cb log.
           trace s' = log @
             [CallbackRun cb None
                \<lparr>holds_port_allocator = (port_allocator_m s' \<noteq> None), holds_channel = False,
                 holds_socket = False, holds_authenticator = False\<rparr>] \<and>
           (case e of EvConnect callback result \<Rightarrow> callback | _ \<Rightarrow> callback_m s) = Some cb \<and>
           channel_m s' = None \<and> socket_m s' = None \<and> authenticator_m s' = None \<and>
           callback_m s' = None \<and>
           (if is_connect e then port_allocator_m s' \<noteq> None
            else port_allocator_m s' = port_allocator_m s)"
    using assms
    by (cases e)
       (auto simp: connect_defs handler_defs held_def split: if_splits option.splits)
  have reach: "port_allocator_m s' \<noteq> None"
    if "run K es (new_LibjingleStreamTransport nm sf) = Inr s" for es nm sf
  proof (cases "is_connect e")
    case True
    with core show ?thesis by auto
  next
    case False
    have "callback_m (new_LibjingleStreamTransport nm sf) \<noteq> None \<longrightarrow>
          port_allocator_m (new_LibjingleStreamTransport nm sf) \<noteq> None"
      by (simp add: new_LibjingleStreamTransport_def)
    from callback_needs_allocator_run [OF this that]
      failure_event_needs_callback [OF assms(1) False assms(2)]
    show ?thesis by simp
  qed
  from core reach show ?thesis by blast
qed

text \<open>Authentication fails after the handshake has succeeded.\<close>

theorem failure_releases_before_callback_witness:
  "\<exists>s s'. run example_constants
            [EvInitialize ''video'' example_config (Some 1) (Some 2),
             EvConnect (Some 3) (- 1), EvTcpConnected 0] example_transport = Inr s \<and>
        dispatch example_constants (EvAuthenticationDone (- 2) None) s = Inr s' \<and>
        last (trace s') =
          CallbackRun 3 None
            \<lparr>holds_port_allocator = True, holds_channel = False,
             holds_socket = False, holds_authenticator = False\<rparr> \<and>
        authenticator_m s' = None \<and> port_allocator_m s' = port_allocator_m s"
proof -
  let ?es = "[EvInitialize ''video'' example_config (Some 1) (Some 2),
             EvConnect (Some 3) (- 1), EvTcpConnected 0]"
  let ?e = "EvAuthenticationDone (- 2) None"
  have f: "failure_event example_constants ?e"
    by (simp add: example_constants_def)
  have "\<exists>s s'. run example_constants ?es (new_LibjingleStreamTransport (Some 10) (Some 11)) = Inr s \<and>
          callback_m s = Some 3 \<and> dispatch example_constants ?e s = Inr s'"
    by (simp add: step_def example_defs connect_defs handler_defs allocator_defs adapter_defs)
  then obtain s s' where r: "run example_constants ?es
        (new_LibjingleStreamTransport (Some 10) (Some 11)) = Inr s"
    and c: "callback_m s = Some 3"
    and d: "dispatch example_constants ?e s = Inr s'"
    by blast
  from r have reach: "\<exists>es nm sf. run example_constants es (new_LibjingleStreamTransport nm sf) = Inr s"
    by blast
  note th = failure_releases_before_callback [OF f d, unfolded event.case is_connect.simps if_False]
  from th reach have held: "port_allocator_m s' \<noteq> None"
    by blast
  from th obtain cb log
    where tr: "trace s' = log @
             [CallbackRun cb None
                \<lparr>holds_port_allocator = (port_allocator_m s' \<noteq> None), holds_channel = False,
                 holds_socket = False, holds_authenticator = False\<rparr>]"
      and cb: "callback_m s = Some cb"
      and au: "authenticator_m s' = None"
      and pa: "port_allocator_m s' = port_allocator_m s"
    by blast
  from cb c have "cb = 3" by simp
  with tr held au pa
  have "last (trace s') =
          CallbackRun 3 None
            \<lparr>holds_port_allocator = True, holds_channel = False,
             holds_socket = False, holds_authenticator = False\<rparr> \<and>
        authenticator_m s' = None \<and> port_allocator_m s' = port_allocator_m s"
    by simp
  with r d show ?thesis
    unfolding example_transport_def by (intro exI [of _ s] exI [of _ s'] conjI) simp_all
qed

text \<open>
  Claim C2 as stated asks for all four resources to be gone. In this run the failure
  callback runs while the transport holds its port allocator.
\<close>

theorem failure_callback_sees_allocator:
  "map_sum id trace
     (run example_constants
        [EvInitialize ''video'' example_config (Some 1) (Some 2),
         EvConnect (Some 3) (- 2)] example_transport) =
   Inr [ChannelConnect,
        SocketConnect
          \<lparr>on_destroyed_callback_set = True, send_buffer_size = 292864,
           receive_buffer_size = 262144, no_delay = True, ack_delay = 10\<rparr>,
        CallbackRun 3 None
          \<lparr>holds_port_allocator = True, holds_channel = False,
           holds_socket = False, holds_authenticator = False\<rparr>]"
  by (simp add: step_def example_defs connect_defs handler_defs allocator_defs adapter_defs
      held_def)

text \<open>
  Claim C3 at the input where the code departs from it: a transport as the factory
  creates it, and the same transport after \<open>Initialize\<close>. Nothing has been delivered,
  and \<open>is_connected\<close> answers true.
\<close>

theorem is_connected_true_with_nothing_delivered:
  "is_connected example_transport \<and> deliveries (trace example_transport) = [] \<and>
   map_sum id (\<lambda>s. (is_connected s, deliveries (trace s)))
     (run example_constants [EvInitialize ''video'' example_config (Some 1) (Some 2)]
        example_transport) = Inr (True, [])"
  by (simp add: step_def example_defs handler_defs)

text \<open>
  Claim C4. The channel adapter that raises the destroyed event is created inside
  \<open>Connect\<close>, after the callback is stored, so the event can only reach a transport
  on which \<open>Connect\<close> has been called. On such a transport, while the completion
  has not been delivered the event changes nothing; once it has been delivered the
  event runs \<open>delete this\<close>, and the destructor goes through when the event handler
  is set and the adapter has left \<open>socket_\<close>.
\<close>

theorem channel_destroyed_deletes_iff_delivered:
  assumes "run K (pre @ EvConnect (Some cb) r # es) (new_LibjingleStreamTransport nm sf) = Inr s"
    and "\<forall>e \<in> set pre. \<not> is_connect e"
    and "\<forall>e \<in> set es. \<not> is_connect e"
  shows "(deliveries (trace s) = [] \<longrightarrow> step K EvChannelDestroyed s = Inr s) \<and>
         (deliveries (trace s) \<noteq> [] \<and> \<not> deleted s \<longrightarrow>
            step K EvChannelDestroyed s = delete_this s \<and>
            (\<forall>h. event_handler_m s = Some h \<and> socket_m s = None \<longrightarrow>
               (\<exists>s'. delete_this s = Inr s' \<and> deleted s' \<and>
                     trace s' = trace s @ [OnTransportDeleted h])))"
proof -
  note ac = after_connect [OF assms]
  have pending: "callback_m s \<noteq> None \<and> \<not> deleted s" if "deliveries (trace s) = []"
    using ac that by (cases "spec_connect_outcome K r es") simp_all
  have delivered: "callback_m s = None" if "deliveries (trace s) \<noteq> []"
    using ac that by (cases "spec_connect_outcome K r es") simp_all
  have a: "step K EvChannelDestroyed s = Inr s" if "deliveries (trace s) = []"
    using pending [OF that] by (auto simp add: step_def OnChannelDestroyed_def is_connected_def)
  have b: "step K EvChannelDestroyed s = delete_this s"
    if "deliveries (trace s) \<noteq> []" "\<not> deleted s"
    using delivered [OF that(1)] that(2)
    by (simp add: step_def OnChannelDestroyed_def is_connected_def)
  from a b delete_this_succeeds show ?thesis by blast
qed

text \<open>The event during authentication, and the event after the socket was delivered.\<close>

theorem channel_destroyed_deletes_iff_delivered_witness:
  "(\<exists>s. run example_constants
          [EvInitialize ''video'' example_config (Some 1) (Some 2),
           EvConnect (Some 3) (- 1), EvTcpConnected 0] example_transport = Inr s \<and>
        deliveries (trace s) = [] \<and>
        step example_constants EvChannelDestroyed s = Inr s) \<and>
   (\<exists>s s'. run example_constants
          [EvInitialize ''video'' example_config (Some 1) (Some 2),
           EvConnect (Some 3) (- 1), EvTcpConnected 0,
           EvAuthenticationDone 0 (Some 9)] example_transport = Inr s \<and>
        deliveries (trace s) = [(3, Some 9)] \<and>
        step example_constants EvChannelDestroyed s = Inr s' \<and> deleted s')"
proof -
  let ?pre = "[EvInitialize ''video'' example_config (Some 1) (Some 2)]"
  let ?es1 = "[EvTcpConnected 0]"
  let ?es2 = "[EvTcpConnected 0, EvAuthenticationDone 0 (Some 9)]"
  let ?t = "new_LibjingleStreamTransport (Some 10) (Some 11)"
  have "\<exists>s. run example_constants (?pre @ EvConnect (Some 3) (- 1) # ?es1) ?t = Inr s \<and>
             deliveries (trace s) = []"
    by (simp add: step_def example_defs connect_defs handler_defs allocator_defs adapter_defs)
  then obtain s1 where r1: "run example_constants (?pre @ EvConnect (Some 3) (- 1) # ?es1) ?t = Inr s1"
    and d1: "deliveries (trace s1) = []"
    by blast
  have "\<exists>s. run example_constants (?pre @ EvConnect (Some 3) (- 1) # ?es2) ?t = Inr s \<and>
             deliveries (trace s) = [(3, Some 9)] \<and> \<not> deleted s \<and>
             event_handler_m s = Some 1 \<and> socket_m s = None"
    by (simp add: step_def example_defs connect_defs handler_defs allocator_defs adapter_defs)
  then obtain s2 where r2: "run example_constants (?pre @ EvConnect (Some 3) (- 1) # ?es2) ?t = Inr s2"
    and d2: "deliveries (trace s2) = [(3, Some 9)]" "\<not> deleted s2"
      "event_handler_m s2 = Some 1" "socket_m s2 = None"
    by blast
  from channel_destroyed_deletes_iff_delivered [OF r1] d1
  have a: "step example_constants EvChannelDestroyed s1 = Inr s1" by simp
  from channel_destroyed_deletes_iff_delivered [OF r2] d2
  have b: "\<exists>s'. step example_constants EvChannelDestroyed s2 = Inr s' \<and> deleted s'"
    by auto
  from r1 d1 a r2 d2 b show ?thesis
    unfolding example_transport_def by (simp only: append.simps) blast
qed

text \<open>
  Claim C5. Every \<open>Connect\<close> that returns leaves a port allocator whose flags
  contain \<open>PORTALLOCATOR_DISABLE_TCP\<close> and whose port range is the configured one,
  and the channel is built on it. With NAT traversal the allocator is an
  \<open>HttpPortAllocator\<close> and no other flag is set; without it the allocator is a
  \<open>BasicPortAllocator\<close> whose flags also contain \<open>PORTALLOCATOR_DISABLE_STUN\<close> and
  \<open>PORTALLOCATOR_DISABLE_RELAY\<close>.
\<close>

theorem connect_configures_allocator:
  assumes "Connect K callback result s = Inr s'"
  shows "\<exists>a. port_allocator_m s' = Some a \<and>
           flags a AND PORTALLOCATOR_DISABLE_TCP K = PORTALLOCATOR_DISABLE_TCP K \<and>
           port_range a = (min_port (config_m s), max_port (config_m s)) \<and>
           (\<forall>c. channel_m s' = Some c \<longrightarrow> channel_allocator c = Some a) \<and>
           (if nat_traversal (config_m s)
            then allocator_class a = HttpPortAllocator \<and> http_port_allocator_m s' \<and>
                 flags a = PORTALLOCATOR_DISABLE_TCP K
            else allocator_class a = BasicPortAllocator \<and>
                 flags a AND PORTALLOCATOR_DISABLE_STUN K = PORTALLOCATOR_DISABLE_STUN K \<and>
                 flags a AND PORTALLOCATOR_DISABLE_RELAY K = PORTALLOCATOR_DISABLE_RELAY K \<and>
                 flags a = PORTALLOCATOR_DISABLE_TCP K OR
                   (PORTALLOCATOR_DISABLE_STUN K OR PORTALLOCATOR_DISABLE_RELAY K))"
proof -
  have tcp: "(t OR (u OR v)) AND t = t" and stun: "(t OR (u OR v)) AND u = u"
    and relay: "(t OR (u OR v)) AND v = v" for t u v :: int
    by (auto simp: bit_eq_iff bit_simps)
  show ?thesis
  proof (cases "nat_traversal (config_m s)")
    case True
    with assms show ?thesis
      by (auto simp: connect_defs handler_defs allocator_defs split: if_splits option.splits)
  next
    case False
    with assms show ?thesis
      by (auto simp: connect_defs handler_defs allocator_defs tcp stun relay
          split: if_splits option.splits)
  qed
qed

text \<open>One \<open>Connect\<close> without NAT traversal and one with it.\<close>

theorem connect_configures_allocator_witness:
  "(\<exists>s' a. Connect example_constants (Some 3) (- 1)
            (example_transport\<lparr>config_m := example_config\<rparr>) = Inr s' \<and>
        port_allocator_m s' = Some a \<and> allocator_class a = BasicPortAllocator \<and>
        flags a = 14 \<and> port_range a = (12400, 12409)) \<and>
   (\<exists>s' a. Connect example_constants (Some 3) (- 1)
            (example_transport\<lparr>config_m := example_config\<lparr>nat_traversal := True\<rparr>\<rparr>) = Inr s' \<and>
        port_allocator_m s' = Some a \<and> allocator_class a = HttpPortAllocator \<and>
        flags a = 8 \<and> port_range a = (12400, 12409))"
proof -
  let ?s = "example_transport\<lparr>config_m := example_config\<rparr>"
  let ?t = "example_transport\<lparr>config_m := example_config\<lparr>nat_traversal := True\<rparr>\<rparr>"
  have "\<exists>s'. Connect example_constants (Some 3) (- 1) ?s = Inr s'"
    by (simp add: example_defs connect_defs)
  then obtain s' where c: "Connect example_constants (Some 3) (- 1) ?s = Inr s'"
    by blast
  have "\<exists>t'. Connect example_constants (Some 3) (- 1) ?t = Inr t'"
    by (simp add: example_defs connect_defs)
  then obtain t' where d: "Connect example_constants (Some 3) (- 1) ?t = Inr t'"
    by blast
  have cfg: "\<not> nat_traversal (config_m ?s)" "nat_traversal (config_m ?t)"
    "min_port (config_m ?s) = 12400" "max_port (config_m ?s) = 12409"
    "min_port (config_m ?t) = 12400" "max_port (config_m ?t) = 12409"
    by (simp_all add: example_defs)
  have k: "PORTALLOCATOR_DISABLE_TCP example_constants = 8"
    "PORTALLOCATOR_DISABLE_TCP example_constants OR
       (PORTALLOCATOR_DISABLE_STUN example_constants OR
        PORTALLOCATOR_DISABLE_RELAY example_constants) = 14"
    by (simp_all add: example_constants_def)
  from connect_configures_allocator [OF c] cfg k
  have a: "\<exists>a. port_allocator_m s' = Some a \<and> allocator_class a = BasicPortAllocator \<and>
        flags a = 14 \<and> port_range a = (12400, 12409)"
    by auto
  from connect_configures_allocator [OF d] cfg k
  have b: "\<exists>a. port_allocator_m t' = Some a \<and> allocator_class a = HttpPortAllocator \<and>
        flags a = 8 \<and> port_range a = (12400, 12409)"
    by auto
  from a c have A: "\<exists>s' a. Connect example_constants (Some 3) (- 1) ?s = Inr s' \<and>
        port_allocator_m s' = Some a \<and> allocator_class a = BasicPortAllocator \<and>
        flags a = 14 \<and> port_range a = (12400, 12409)"
    by (intro exI [of _ s']) simp
  from b d have B: "\<exists>s' a. Connect example_constants (Some 3) (- 1) ?t = Inr s' \<and>
        port_allocator_m s' = Some a \<and> allocator_class a = HttpPortAllocator \<and>
        flags a = 8 \<and> port_range a = (12400, 12409)"
    by (intro exI [of _ t']) simp
  from A B show ?thesis by (intro conjI)
qed

text \<open>
  Claim C6. Every \<open>Connect\<close> that returns has asked an adapter to connect whose
  receive buffer is 262144 bytes, whose send buffer is 292864 bytes (30720 more),
  with Nagle's algorithm off and an acknowledgment delay of 10 ms, whatever the
  state, and so the configuration, of the transport was.
\<close>

theorem connect_configures_adapter:
  assumes "Connect K callback result s = Inr s'"
  shows "\<exists>a rest.
           trace s' = trace s @ ChannelConnect # SocketConnect a # rest \<and>
           receive_buffer_size a = 262144 \<and>
           send_buffer_size a = 292864 \<and>
           send_buffer_size a = receive_buffer_size a + 30720 \<and>
           no_delay a \<and>
           ack_delay a = 10 \<and>
           on_destroyed_callback_set a \<and>
           receive_buffer_size a = kTcpReceiveBufferSize \<and>
           send_buffer_size a = kTcpSendBufferSize \<and>
           ack_delay a = kTcpAckDelayMilliseconds \<and>
           (result = net_ERR_IO_PENDING K \<longrightarrow> socket_m s' = Some a)"
  using assms
  by (auto simp: connect_defs handler_defs adapter_defs split: if_splits option.splits)

text \<open>A \<open>Connect\<close> with NAT traversal on and another port range.\<close>

theorem connect_configures_adapter_witness:
  "\<exists>s'. Connect example_constants (Some 3) (- 1)
            (example_transport\<lparr>config_m := \<lparr>nat_traversal = True, min_port = 1, max_port = 2\<rparr>\<rparr>)
          = Inr s' \<and>
        trace s' =
          [ChannelConnect,
           SocketConnect
             \<lparr>on_destroyed_callback_set = True, send_buffer_size = 292864,
              receive_buffer_size = 262144, no_delay = True, ack_delay = 10\<rparr>]"
proof -
  let ?s = "example_transport\<lparr>config_m := \<lparr>nat_traversal = True, min_port = 1, max_port = 2\<rparr>\<rparr>"
  have "\<exists>s'. Connect example_constants (Some 3) (- 1) ?s = Inr s' \<and> length (trace s') = 2"
    by (simp add: example_defs connect_defs)
  then obtain s' where c: "Connect example_constants (Some 3) (- 1) ?s = Inr s'"
    and l: "length (trace s') = 2"
    by blast
  have t: "trace ?s = []"
    by (simp add: example_defs)
  from connect_configures_adapter [OF c] obtain a rest
    where tr: "trace s' = trace ?s @ ChannelConnect # SocketConnect a # rest"
      and a: "receive_buffer_size a = 262144" "send_buffer_size a = 292864" "no_delay a"
        "ack_delay a = 10" "on_destroyed_callback_set a"
    by blast
  from tr t l have "rest = []" by simp
  moreover from a have "a = \<lparr>on_destroyed_callback_set = True, send_buffer_size = 292864,
              receive_buffer_size = 262144, no_delay = True, ack_delay = 10\<rparr>"
    by simp
  ultimately show ?thesis using c tr t by simp
qed



text \<open>
  Claim C8, as the code has it. After \<open>Connect\<close> and as long as the completion has
  not been delivered, any number of further \<open>AddRemoteCandidate\<close> calls return, each
  adding one call on the channel, and the channel has received every candidate of
  the run in the order of the calls.
\<close>

theorem candidates_forwarded_in_call_order:
  assumes "run K (pre @ EvConnect (Some cb) r # es) (new_LibjingleStreamTransport nm sf) = Inr s"
    and "\<forall>e \<in> set pre. \<not> is_connect e"
    and "\<forall>e \<in> set es. \<not> is_connect e"
    and "deliveries (trace s) = []"
  shows "run K (pre @ EvConnect (Some cb) r # es @ map EvAddRemoteCandidate cs)
           (new_LibjingleStreamTransport nm sf) =
         Inr (s\<lparr>trace := trace s @ map ChannelOnCandidate cs\<rparr>) \<and>
         forwarded (trace s @ map ChannelOnCandidate cs) = added (pre @ es) @ cs"
proof -
  let ?s0 = "new_LibjingleStreamTransport nm sf"
  let ?evs = "pre @ EvConnect (Some cb) r # es"
  note ac = after_connect [OF assms(1,2,3)]
  from ac assms(4) have live: "channel_m s \<noteq> None" "\<not> deleted s"
    by (cases "spec_connect_outcome K r es"; simp)+
  have "run K (?evs @ map EvAddRemoteCandidate cs) ?s0 =
        Inr (s\<lparr>trace := trace s @ map ChannelOnCandidate cs\<rparr>)"
    using assms(1) add_candidates_run [OF live] by (simp only: run_append sum.case)
  then have a: "run K (pre @ EvConnect (Some cb) r # es @ map EvAddRemoteCandidate cs) ?s0 =
        Inr (s\<lparr>trace := trace s @ map ChannelOnCandidate cs\<rparr>)"
    by simp
  have "forwarded (trace ?s0) = []"
    by (simp add: new_LibjingleStreamTransport_def)
  with forwarded_run [OF assms(1)] have "forwarded (trace s) = added ?evs" by simp
  also have "\<dots> = added (pre @ es)" by (simp add: added_append)
  finally have f: "forwarded (trace s) = added (pre @ es)" .
  have "forwarded (map ChannelOnCandidate cs) = cs"
    by (induction cs) simp_all
  with f have b: "forwarded (trace s @ map ChannelOnCandidate cs) = added (pre @ es) @ cs"
    by (simp add: forwarded_append)
  from a b show ?thesis by (intro conjI)
qed

text \<open>Candidates between other events, one of them twice.\<close>

theorem candidates_forwarded_in_call_order_witness:
  "\<exists>s'. run example_constants
          [EvInitialize ''video'' example_config (Some 1) (Some 2),
           EvConnect (Some 3) (- 1), EvAddRemoteCandidate 7, EvRequestSignaling,
           EvAddRemoteCandidate 5, EvAddRemoteCandidate 7, EvAddRemoteCandidate 6]
          example_transport = Inr s' \<and>
        forwarded (trace s') = [7, 5, 7, 6]"
proof -
  let ?pre = "[EvInitialize ''video'' example_config (Some 1) (Some 2)]"
  let ?es = "[EvAddRemoteCandidate 7, EvRequestSignaling]"
  let ?t = "new_LibjingleStreamTransport (Some 10) (Some 11)"
  have "\<exists>s. run example_constants (?pre @ EvConnect (Some 3) (- 1) # ?es) ?t = Inr s \<and>
             deliveries (trace s) = []"
    by (simp add: step_def example_defs connect_defs handler_defs)
  then obtain s where r: "run example_constants (?pre @ EvConnect (Some 3) (- 1) # ?es) ?t = Inr s"
    and d: "deliveries (trace s) = []"
    by blast
  from candidates_forwarded_in_call_order [OF r _ _ d, of "[5, 7, 6]"]
  show ?thesis
    by (simp add: example_transport_def)
qed

text \<open>
  Claim C8 as stated covers every call before the completion callback fires. Before
  \<open>Connect\<close> there is no channel, and the call goes through the NULL \<open>channel_\<close>.
\<close>

theorem candidate_before_connect_crashes:
  "run example_constants
     [EvInitialize ''video'' example_config (Some 1) (Some 2), EvAddRemoteCandidate 7]
     example_transport = Inl NullDereference"
  by (simp add: step_def example_defs handler_defs)

text \<open>
  Claim C9. \<open>CreateStreamTransport\<close> leaves the factory as it was, reports
  nothing and returns a transport that carries the factory's network manager and
  socket factory, has no name, handler, authenticator or resource, has done nothing,
  and accepts \<open>Initialize\<close>. \<open>CreateDatagramTransport\<close> reports \<open>NOTIMPLEMENTED\<close> and
  returns NULL.
\<close>

theorem factory_creates_fresh_transports:
  "CreateStreamTransport f =
     (f, [], Some (new_LibjingleStreamTransport (factory_network_manager_m f)
                     (factory_socket_factory_m f))) \<and>
   name (new_LibjingleStreamTransport (factory_network_manager_m f)
          (factory_socket_factory_m f)) = [] \<and>
   event_handler_m (new_LibjingleStreamTransport (factory_network_manager_m f)
          (factory_socket_factory_m f)) = None \<and>
   authenticator_m (new_LibjingleStreamTransport (factory_network_manager_m f)
          (factory_socket_factory_m f)) = None \<and>
   held (new_LibjingleStreamTransport (factory_network_manager_m f)
          (factory_socket_factory_m f)) =
     \<lparr>holds_port_allocator = False, holds_channel = False, holds_socket = False,
      holds_authenticator = False\<rparr> \<and>
   trace (new_LibjingleStreamTransport (factory_network_manager_m f)
          (factory_socket_factory_m f)) = [] \<and>
   network_manager_m (new_LibjingleStreamTransport (factory_network_manager_m f)
          (factory_socket_factory_m f)) = factory_network_manager_m f \<and>
   socket_factory_m (new_LibjingleStreamTransport (factory_network_manager_m f)
          (factory_socket_factory_m f)) = factory_socket_factory_m f \<and>
   (nm \<noteq> [] \<longrightarrow>
      (\<exists>s'. Initialize nm config (Some h) a
              (new_LibjingleStreamTransport (factory_network_manager_m f)
                 (factory_socket_factory_m f)) = Inr s' \<and>
            name s' = nm)) \<and>
   CreateDatagramTransport f = (f, [NOTIMPLEMENTED], None)"
  by (simp add: CreateStreamTransport_def CreateDatagramTransport_def
      new_LibjingleStreamTransport_def name_def held_def Initialize_def)

text \<open>A factory as its constructor builds it.\<close>

theorem factory_creates_fresh_transports_witness:
  "fst (snd (CreateStreamTransport (new_LibjingleTransportFactory 10 11))) = [] \<and>
   map_option network_manager_m
     (snd (snd (CreateStreamTransport (new_LibjingleTransportFactory 10 11)))) =
   Some (Some 10) \<and>
   snd (CreateDatagramTransport (new_LibjingleTransportFactory 10 11)) =
   ([NOTIMPLEMENTED], None) \<and>
   (\<exists>s'. Initialize ''video'' example_config (Some 1) (Some 2)
           (new_LibjingleStreamTransport (Some 10) (Some 11)) = Inr s' \<and>
         name s' = ''video'')"
  using factory_creates_fresh_transports [of "new_LibjingleTransportFactory 10 11" "''video''"]
  by (simp add: new_LibjingleTransportFactory_def new_LibjingleStreamTransport_def)

text \<open>
  Claim C10. \<open>is_connected\<close> is the test that \<open>callback_\<close> is null. The constructor
  leaves \<open>callback_\<close> null, so a new transport answers true before anything was
  delivered, and \<open>NotifyConnected\<close> resets it, so the answer is true after a
  delivery too.
\<close>

theorem fresh_transport_reports_connected:
  "is_connected (new_LibjingleStreamTransport nm sf) \<and>
   callback_m (new_LibjingleStreamTransport nm sf) = None \<and>
   deliveries (trace (new_LibjingleStreamTransport nm sf)) = [] \<and>
   is_connected s = (callback_m s = None) \<and>
   (\<forall>socket s'. NotifyConnected socket s = Inr s' \<longrightarrow> is_connected s')"
  by (auto simp: is_connected_def new_LibjingleStreamTransport_def NotifyConnected_def
      split: option.splits)

text \<open>A new transport, and one that has just delivered.\<close>

theorem fresh_transport_reports_connected_witness:
  "is_connected example_transport \<and>
   (\<exists>s'. NotifyConnected (Some 9) (example_transport\<lparr>callback_m := Some 3\<rparr>) = Inr s' \<and>
         is_connected s')"
proof -
  let ?s = "example_transport\<lparr>callback_m := Some 3\<rparr>"
  have "\<exists>s'. NotifyConnected (Some 9) ?s = Inr s'"
    by (simp add: NotifyConnected_def)
  then obtain s' where n: "NotifyConnected (Some 9) ?s = Inr s'" by blast
  from fresh_transport_reports_connected [of "Some 10" "Some 11" ?s] n
  have "is_connected example_transport" "is_connected s'"
    by (auto simp: example_transport_def)
  with n show ?thesis by (intro conjI exI [of _ s']) simp_all
qed

end
